theory Spec2Isabelle
  imports Main "HOL-Library.Word"
begin

section \<open>simplecert: configuration validation and startup (simplecert.go)\<close>

text \<open>
  A shallow embedding of the two parts of \<^verbatim>\<open>simplecert.go\<close>: the configuration
  (\<^verbatim>\<open>Config\<close>, \<^verbatim>\<open>Default\<close>, \<^verbatim>\<open>CheckConfig\<close>) and the startup
  path (\<^verbatim>\<open>Init\<close>, \<^verbatim>\<open>loadStoredCert\<close>).

  Go's \<^verbatim>\<open>error\<close> values are modelled by their messages; a nil pointer dereference is
  the separate value \<open>NilPanic\<close>. A function returning \<^verbatim>\<open>(T, error)\<close> returns
  \<open>error + T\<close>, one returning only \<^verbatim>\<open>error\<close> returns \<open>error option\<close>
  (\<open>None\<close> is nil).
\<close>

subsection \<open>Errors\<close>

datatype error = Err string | NilPanic

fun Error :: "error \<Rightarrow> string" where
  "Error (Err m) = m"
| "Error NilPanic = ''runtime error: invalid memory address or nil pointer dereference''"

definition errors_New :: "string \<Rightarrow> error" where
  "errors_New m = Err m"

definition errNoDirectoryURL :: error where
  "errNoDirectoryURL = errors_New ''simplecert: no directory url specified in config''"

definition errNoMail :: error where
  "errNoMail = errors_New ''simplecert: no SSLEmail in config in config''"

definition errNoDomains :: error where
  "errNoDomains = errors_New ''simplecert: no domains specified in config''"

definition errNoChallenge :: error where
  "errNoChallenge = errors_New ''simplecert: no challenge method specified in config''"

definition errNoCacheDir :: error where
  "errNoCacheDir = errors_New ''simplecert: no cache directory specified in config''"

definition errNoRenewBefore :: error where
  "errNoRenewBefore = errors_New ''simplecert: no renew before value set in config''"

definition errNoCheckInterval :: error where
  "errNoCheckInterval = errors_New ''simplecert: no check interval set in config''"

definition errNoCacheDirPerm :: error where
  "errNoCacheDirPerm =
     errors_New ''simplecert: no cache directory permission specified in config''"

definition errUnsupportedKeyType :: error where
  "errUnsupportedKeyType =
     errors_New ''simplecert: unsupported key type specified in config''"

subsection \<open>Key types and the Config struct\<close>

definition EC256 :: string where "EC256 = ''P256''"
definition EC384 :: string where "EC384 = ''P384''"
definition RSA2048 :: string where "RSA2048 = ''2048''"
definition RSA4096 :: string where "RSA4096 = ''4096''"
definition RSA8192 :: string where "RSA8192 = ''8192''"

text \<open>The map literal \<^verbatim>\<open>supportedKeyTypes\<close>, as the association list it is written as.\<close>

definition supportedKeyTypes :: "(string \<times> bool) list" where
  "supportedKeyTypes =
     [(EC256, True), (EC384, True), (RSA2048, True), (RSA4096, True), (RSA8192, True)]"

text \<open>Indexing a Go \<^verbatim>\<open>map[string]bool\<close>: a missing key reads as \<^verbatim>\<open>false\<close>.\<close>

definition map_index :: "(string \<times> bool) list \<Rightarrow> string \<Rightarrow> bool" where
  "map_index m k = (case map_of m k of None \<Rightarrow> False | Some b \<Rightarrow> b)"

text \<open>
  A handler (\<^verbatim>\<open>func()\<close>, \<^verbatim>\<open>func(error)\<close>) is a function value that is nil or not; it
  is modelled by an identifier, \<open>None\<close> for nil. Calling it is an event of the trace below.
\<close>

type_synonym hook = nat

text \<open>
  \<^verbatim>\<open>RenewBefore\<close> is a Go \<^verbatim>\<open>int\<close> (64 bits on the supported platforms),
  \<^verbatim>\<open>time.Duration\<close> an \<^verbatim>\<open>int64\<close> of nanoseconds, \<^verbatim>\<open>os.FileMode\<close> a
  \<^verbatim>\<open>uint32\<close>.
\<close>

record Config =
  RenewBefore :: "64 word"
  CheckInterval :: "64 word"
  SSLEmail :: string
  DirectoryURL :: string
  HTTPAddress :: string
  TLSAddress :: string
  CacheDirPerm :: "32 word"
  Domains :: "string list"
  DNSServers :: "string list"
  CacheDir :: string
  DNSProvider :: string
  Local :: bool
  UpdateHosts :: bool
  KeyType :: string
  WillRenewCertificate :: "hook option"
  DidRenewCertificate :: "hook option"
  FailedToRenewCertificate :: "hook option"

definition time_Hour :: "64 word" where
  "time_Hour = 3600000000000"

definition Default :: Config where
  "Default = \<lparr>
     RenewBefore = 30 * 24,
     CheckInterval = 2 * 24 * time_Hour,
     SSLEmail = '''',
     DirectoryURL = ''https://acme-v02.api.letsencrypt.org/directory'',
     HTTPAddress = '':80'',
     TLSAddress = '':443'',
     CacheDirPerm = 448,
     Domains = [],
     DNSServers = [],
     CacheDir = ''letsencrypt'',
     DNSProvider = '''',
     Local = False,
     UpdateHosts = True,
     KeyType = RSA2048,
     WillRenewCertificate = None,
     DidRenewCertificate = None,
     FailedToRenewCertificate = None
   \<rparr>"

subsection \<open>Events\<close>

text \<open>
  Everything the startup path does to the outside world is recorded, in order, in a trace
  of events: log lines, file system and network calls, handler calls, goroutines started.
\<close>

datatype logarg = Str string | Strs "string list" | ErrArg error

type_synonym os_File = nat
type_synonym cleanup = nat
type_synonym user = nat
type_synonym client = nat
type_synonym bytes = string
type_synonym reloader = nat

text \<open>\<^verbatim>\<open>certificate.Resource\<close> and the stored \<^verbatim>\<open>CR\<close>: only the domain is read here.\<close>

datatype Resource = Resource (Domain: string) (material: string)

datatype CR = CR (cr_Domain: string) (cr_material: string)

record ObtainRequest =
  req_Domains :: "string list"
  req_Bundle :: bool

datatype event =
    EvLog "logarg list"
  | EvEnsureCacheDirExists string
  | EvOpenFile string
  | EvSetOutput os_File
  | EvCertCached string
  | EvDomainsChanged string string
  | EvCreateLocalCert string string
  | EvUpdateHosts
  | EvGetUser
  | EvCreateClient user "string list"
  | EvObtain client ObtainRequest
  | EvSaveCertToDisk Resource string
  | EvReadFile string
  | EvUnmarshal bytes
  | EvNewCertReloader string string os_File cleanup
  | EvRenew Resource
  | EvFailedToRenewCertificate hook error
  | EvGoRenewalRoutine Resource

subsection \<open>CheckConfig\<close>

text \<open>
  \<^verbatim>\<open>CheckConfig\<close> returns the error (nil is \<open>None\<close>) together with the lines it
  logged. The checks are in the order of the source.
\<close>

fun CheckConfig :: "Config \<Rightarrow> error option \<times> event list" where
  "CheckConfig c =
    (if CacheDir c = '''' then (Some errNoCacheDir, [])
     else if length (Domains c) = 0 then (Some errNoDomains, [])
     else if \<not> Local c \<and> SSLEmail c = '''' then (Some errNoMail, [])
     else if DirectoryURL c = '''' then (Some errNoDirectoryURL, [])
     else if DNSProvider c = '''' \<and> HTTPAddress c = '''' \<and> TLSAddress c = ''''
       then (Some errNoChallenge, [])
     else if RenewBefore c = 0 then (Some errNoCacheDir, [])
     else if CheckInterval c = 0 then (Some errNoCheckInterval, [])
     else if CacheDirPerm c = 0 then (Some errNoCacheDirPerm, [])
     else if \<not> map_index supportedKeyTypes (KeyType c) then (Some errUnsupportedKeyType, [])
     else (None,
       (if WillRenewCertificate c = None \<and> (HTTPAddress c \<noteq> '''' \<or> TLSAddress c \<noteq> '''')
        then [EvLog [Str ''[WARNING] no WillRenewCertificate handler specified, to handle graceful server shutdown!'']]
        else []) @
       (if DidRenewCertificate c = None \<and> (HTTPAddress c \<noteq> '''' \<or> TLSAddress c \<noteq> '''')
        then [EvLog [Str ''[WARNING] no DidRenewCertificate handler specified, to bring the service back up after renewing the certificate!'']]
        else []) @
       (if FailedToRenewCertificate c = None
        then [EvLog [Str ''[WARNING] no FailedToRenewCertificate handler specified! Simplecert will fatal on errors!'']]
        else [])))"

declare CheckConfig.simps [simp del]

text \<open>
  The validator as the specification words it: the first violated invariant of the ordered
  list (cache directory, domains, contact address unless local, directory endpoint,
  challenge mechanism, renew-before window, check interval, cache directory permission,
  key algorithm), each with the error named after it.
\<close>

definition spec_supported :: "string list" where
  "spec_supported = [''P256'', ''P384'', ''2048'', ''4096'', ''8192'']"

definition spec_first_violation :: "Config \<Rightarrow> error option" where
  "spec_first_violation c =
    (if CacheDir c = '''' then Some errNoCacheDir
     else if Domains c = [] then Some errNoDomains
     else if SSLEmail c = '''' \<and> \<not> Local c then Some errNoMail
     else if DirectoryURL c = '''' then Some errNoDirectoryURL
     else if HTTPAddress c = '''' \<and> TLSAddress c = '''' \<and> DNSProvider c = ''''
       then Some errNoChallenge
     else if RenewBefore c = 0 then Some errNoRenewBefore
     else if CheckInterval c = 0 then Some errNoCheckInterval
     else if CacheDirPerm c = 0 then Some errNoCacheDirPerm
     else if KeyType c \<notin> set spec_supported then Some errUnsupportedKeyType
     else None)"

subsection \<open>Package state and collaborators\<close>

text \<open>
  \<^verbatim>\<open>Init\<close> receives a pointer to the caller's \<^verbatim>\<open>Config\<close> and stores it in the
  package variable \<^verbatim>\<open>c\<close>; a write through \<^verbatim>\<open>c\<close> is a write to the caller's struct.
  The model keeps the structs in a store indexed by address. The package variables
  \<^verbatim>\<open>c\<close> and \<^verbatim>\<open>local\<close> are the fields \<open>glob_c\<close> and \<open>glob_local\<close>.
\<close>

type_synonym addr = nat

record pkg_state =
  heap :: "addr \<rightharpoonup> Config"
  glob_c :: "addr option"
  glob_local :: bool
  trace :: "event list"

definition emit :: "event \<Rightarrow> pkg_state \<Rightarrow> pkg_state" where
  "emit e s = s\<lparr>trace := trace s @ [e]\<rparr>"

definition emits :: "event list \<Rightarrow> pkg_state \<Rightarrow> pkg_state" where
  "emits es s = s\<lparr>trace := trace s @ es\<rparr>"

text \<open>Reading through the package variable \<^verbatim>\<open>c\<close>; \<open>None\<close> when it is nil.\<close>

definition deref_c :: "pkg_state \<Rightarrow> Config option" where
  "deref_c s = (case glob_c s of None \<Rightarrow> None | Some a \<Rightarrow> heap s a)"

text \<open>
  The functions \<^verbatim>\<open>Init\<close> and \<^verbatim>\<open>loadStoredCert\<close> call that are not part of
  \<^verbatim>\<open>simplecert.go\<close> (the standard library, the ACME client, and the package's other
  files) are parameters: each field gives what the call returns. A call is also recorded
  in the trace. The calls that return nothing (\<^verbatim>\<open>ensureCacheDirExists\<close>,
  \<^verbatim>\<open>createLocalCert\<close>, \<^verbatim>\<open>updateHosts\<close>, \<^verbatim>\<open>log.SetOutput\<close>, the goroutine
  \<^verbatim>\<open>renewalRoutine\<close>) are events only. The collaborators are taken to return, and not
  to assign the package variables or the caller's struct. \<^verbatim>\<open>domainsChanged\<close> reads the
  requested domains from \<^verbatim>\<open>c\<close>, so it is given the struct \<^verbatim>\<open>c\<close> points to.
\<close>

record env =
  filepath_Join :: "string \<Rightarrow> string \<Rightarrow> string"
  os_OpenFile :: "string \<Rightarrow> error + os_File"
  os_ReadFile :: "string \<Rightarrow> error + bytes"
  sonnet_Unmarshal :: "bytes \<Rightarrow> error + CR"
  certCached :: "string \<Rightarrow> bool"
  domainsChanged :: "string \<Rightarrow> string \<Rightarrow> Config \<Rightarrow> bool"
  getUser :: "error + user"
  createClient :: "user \<Rightarrow> string list \<Rightarrow> error + client"
  Obtain :: "client \<Rightarrow> ObtainRequest \<Rightarrow> error + Resource"
  saveCertToDisk :: "Resource \<Rightarrow> string \<Rightarrow> error option"
  NewCertReloader :: "string \<Rightarrow> string \<Rightarrow> os_File \<Rightarrow> cleanup \<Rightarrow> error + reloader"
  getACMECertResource :: "CR \<Rightarrow> Resource"
  renew :: "Resource \<Rightarrow> error option"

definition logFileName :: string where "logFileName = ''simplecert.log''"
definition certResourceFileName :: string where "certResourceFileName = ''CertResource.json''"
definition certFileName :: string where "certFileName = ''cert.pem''"
definition keyFileName :: string where "keyFileName = ''key.pem''"

subsection \<open>loadStoredCert\<close>

text \<open>
  The reloader is created before the renewal check and returned, with its error, at the
  end. The handler is read through \<^verbatim>\<open>c\<close>, which nothing assigns since the read of
  \<^verbatim>\<open>c.CacheDir\<close> at the start.
\<close>

definition loadStoredCert ::
  "env \<Rightarrow> string \<Rightarrow> string \<Rightarrow> os_File \<Rightarrow> cleanup \<Rightarrow> pkg_state
     \<Rightarrow> (error + reloader) \<times> pkg_state" where
  "loadStoredCert E certFilePath keyFilePath logFile cleanup s0 =
    (let s1 = emit (EvLog [Str ''[INFO] simplecert: found cert in cacheDir'']) s0 in
     case deref_c s1 of
       None \<Rightarrow> (Inl NilPanic, s1)
     | Some cv \<Rightarrow>
        let path = filepath_Join E (CacheDir cv) certResourceFileName;
            s2 = emit (EvReadFile path) s1 in
        case os_ReadFile E path of
          Inl err \<Rightarrow>
            (Inl (errors_New (''simplecert: failed to read CertResource.json from disk: ''
                    @ Error err)), s2)
        | Inr b \<Rightarrow>
           let s3 = emit (EvUnmarshal b) s2 in
           case sonnet_Unmarshal E b of
             Inl err \<Rightarrow>
               (Inl (errors_New (''simplecert: failed to unmarshal certificate resource: ''
                       @ Error err)), s3)
           | Inr cr \<Rightarrow>
              let s4 = emit (EvNewCertReloader certFilePath keyFilePath logFile cleanup) s3;
                  certReloader = NewCertReloader E certFilePath keyFilePath logFile cleanup;
                  cert = getACMECertResource E cr;
                  s5 = emit (EvRenew cert) s4 in
              case renew E cert of
                Some errRenew \<Rightarrow>
                  (case FailedToRenewCertificate cv of
                     Some h \<Rightarrow>
                       (certReloader,
                        emit (EvGoRenewalRoutine cert)
                          (emit (EvFailedToRenewCertificate h errRenew) s5))
                   | None \<Rightarrow>
                       (Inl (errors_New (''simplecert: failed to renew cached cert on startup and no failedToRenewCert handler is configured: ''
                               @ Error errRenew)), s5))
              | None \<Rightarrow> (certReloader, emit (EvGoRenewalRoutine cert) s5))"

subsection \<open>Init\<close>

text \<open>
  The code after the label \<^verbatim>\<open>obtainNewCert\<close>, reached by falling through (no cached
  certificate, \<^verbatim>\<open>certDomainsChanged\<close> false) or by the \<^verbatim>\<open>goto\<close> (domains changed,
  \<^verbatim>\<open>certDomainsChanged\<close> true).
\<close>

definition obtainNewCert ::
  "env \<Rightarrow> string \<Rightarrow> string \<Rightarrow> os_File \<Rightarrow> cleanup \<Rightarrow> bool \<Rightarrow> pkg_state
     \<Rightarrow> (error + reloader) \<times> pkg_state" where
  "obtainNewCert E certFilePath keyFilePath logFile cleanup certDomainsChanged s0 =
    (let s1 = emit EvGetUser s0 in
     case getUser E of
       Inl err \<Rightarrow>
         (Inl (errors_New (''simplecert: failed to get ACME user: '' @ Error err)), s1)
     | Inr u \<Rightarrow>
        (case deref_c s1 of
           None \<Rightarrow> (Inl NilPanic, s1)
         | Some cv \<Rightarrow>
            let s2 = emit (EvCreateClient u (DNSServers cv)) s1 in
            case createClient E u (DNSServers cv) of
              Inl err \<Rightarrow>
                (Inl (errors_New (''simplecert: failed to create lego.Client: ''
                        @ Error err)), s2)
            | Inr cl \<Rightarrow>
               let request = \<lparr>req_Domains = Domains cv, req_Bundle = True\<rparr>;
                   s3 = emit (EvObtain cl request) s2 in
               case Obtain E cl request of
                 Inl err \<Rightarrow>
                   if certDomainsChanged then
                     loadStoredCert E certFilePath keyFilePath logFile cleanup
                       (emit (EvLog [Str ''[INFO] simplecert: loading cached certificate from disk''])
                         (emit (EvLog [Str ''[ERROR] simplecert: failed to obtain new cert for changed domains: '',
                                       Strs (Domains cv), Str '' error: '', ErrArg err]) s3))
                   else
                     (Inl (errors_New (''simplecert: failed to obtain cert: '' @ Error err)),
                      s3)
               | Inr cert \<Rightarrow>
                  let s4 = emit (EvLog [Str ''[INFO] simplecert: client obtained cert for domain: '',
                                        Str (Domain cert)]) s3;
                      s5 = emit (EvSaveCertToDisk cert (CacheDir cv)) s4 in
                  case saveCertToDisk E cert (CacheDir cv) of
                    Some err \<Rightarrow>
                      (Inl (errors_New (''simplecert: failed to write cert to disk: ''
                              @ Error err)), s5)
                  | None \<Rightarrow>
                     let s6 = emit (EvLog [Str ''[INFO] simplecert: wrote new cert to disk!'']) s5;
                         s7 = emit (EvGoRenewalRoutine cert) s6;
                         s8 = emit (EvNewCertReloader certFilePath keyFilePath logFile cleanup) s7
                     in (NewCertReloader E certFilePath keyFilePath logFile cleanup, s8)))"

text \<open>
  The branch \<^verbatim>\<open>if c.Local { ... }\<close>: \<open>a\<close> is the address \<^verbatim>\<open>c\<close> holds, \<open>cv\<close> the
  struct there. The assignment to \<^verbatim>\<open>c.CacheDir\<close> updates the store at \<open>a\<close>.
\<close>

definition Init_local ::
  "env \<Rightarrow> addr \<Rightarrow> Config \<Rightarrow> os_File \<Rightarrow> cleanup \<Rightarrow> pkg_state
     \<Rightarrow> (error + reloader) \<times> pkg_state" where
  "Init_local E a cv logFile cleanup s0 =
    (let s1 = s0\<lparr>glob_local := True\<rparr>;
         cv' = cv\<lparr>CacheDir := filepath_Join E (CacheDir cv) ''local''\<rparr>;
         s2 = s1\<lparr>heap := (heap s1)(a \<mapsto> cv')\<rparr>;
         s3 = emit (EvEnsureCacheDirExists (CacheDir cv')) s2;
         certFilePath = filepath_Join E (CacheDir cv') certFileName;
         keyFilePath = filepath_Join E (CacheDir cv') keyFileName;
         s4 = emit (EvCertCached (CacheDir cv')) s3;
         s5 = (if certCached E (CacheDir cv') then
                 (let s = emit (EvDomainsChanged certFilePath keyFilePath) s4 in
                  if domainsChanged E certFilePath keyFilePath cv' then
                    emit (EvCreateLocalCert certFilePath keyFilePath)
                      (emit (EvLog [Str ''[INFO] cert cached but domains have changed. generating a new one...'']) s)
                  else s)
               else emit (EvCreateLocalCert certFilePath keyFilePath) s4);
         s6 = (if UpdateHosts cv' then emit EvUpdateHosts s5 else s5);
         s7 = emit (EvNewCertReloader certFilePath keyFilePath logFile cleanup) s6
     in (NewCertReloader E certFilePath keyFilePath logFile cleanup, s7))"

text \<open>
  \<^verbatim>\<open>Init(cfg, cleanup)\<close>. \<^verbatim>\<open>CheckConfig\<close> dereferences \<open>cfg\<close> first, so a nil
  pointer panics there.
\<close>

definition Init ::
  "env \<Rightarrow> addr \<Rightarrow> cleanup \<Rightarrow> pkg_state \<Rightarrow> (error + reloader) \<times> pkg_state" where
  "Init E cfg cleanup s0 =
    (case heap s0 cfg of
       None \<Rightarrow> (Inl NilPanic, s0)
     | Some cv \<Rightarrow>
        (case CheckConfig cv of
           (Some err, logged) \<Rightarrow> (Inl err, emits logged s0)
         | (None, logged) \<Rightarrow>
            let s1 = (emits logged s0)\<lparr>glob_c := Some cfg\<rparr>;
                s2 = emit (EvEnsureCacheDirExists (CacheDir cv)) s1;
                logPath = filepath_Join E (CacheDir cv) logFileName;
                s3 = emit (EvOpenFile logPath) s2 in
            case os_OpenFile E logPath of
              Inl err \<Rightarrow>
                (Inl (errors_New (''simplecert: failed to create logfile: '' @ Error err)),
                 s3)
            | Inr logFile \<Rightarrow>
               let s4 = emit (EvSetOutput logFile) s3 in
               if Local cv then Init_local E cfg cv logFile cleanup s4
               else
                 let certFilePath = filepath_Join E (CacheDir cv) certFileName;
                     keyFilePath = filepath_Join E (CacheDir cv) keyFileName;
                     s5 = emit (EvCertCached (CacheDir cv)) s4 in
                 if certCached E (CacheDir cv) then
                   (let s6 = emit (EvDomainsChanged certFilePath keyFilePath) s5 in
                    if domainsChanged E certFilePath keyFilePath cv then
                      obtainNewCert E certFilePath keyFilePath logFile cleanup True
                        (emit (EvLog [Str ''[INFO] domains have changed. Obtaining a new certificate...'']) s6)
                    else loadStoredCert E certFilePath keyFilePath logFile cleanup s6)
                 else
                   obtainNewCert E certFilePath keyFilePath logFile cleanup False s5))"

subsection \<open>Concrete configurations and collaborators\<close>

text \<open>
  \<^verbatim>\<open>Default\<close> with the domain set and the contact address filled in, and variants of
  it: with a zero renew-before window, with a failure handler, in local mode.
\<close>

definition cfg_ok :: Config where
  "cfg_ok = Default\<lparr>Domains := [''example.com''], SSLEmail := ''admin@example.com''\<rparr>"

definition cfg_no_renew_before :: Config where
  "cfg_no_renew_before = cfg_ok\<lparr>RenewBefore := 0\<rparr>"

definition cfg_hook :: Config where
  "cfg_hook = cfg_ok\<lparr>FailedToRenewCertificate := Some 1\<rparr>"

definition cfg_local :: Config where
  "cfg_local = cfg_ok\<lparr>Local := True\<rparr>"

text \<open>
  A valid configuration that answers challenges through a DNS provider only: no HTTP and
  no TLS address, a failure handler set, the two other handlers unset.
\<close>

definition cfg_dns :: Config where
  "cfg_dns = cfg_ok\<lparr>HTTPAddress := '''', TLSAddress := '''', DNSProvider := ''cloudflare'',
     FailedToRenewCertificate := Some 1\<rparr>"

text \<open>A caller holding its \<^verbatim>\<open>Config\<close> at address 0, before \<^verbatim>\<open>Init\<close> has run.\<close>

definition init_state :: "Config \<Rightarrow> pkg_state" where
  "init_state cv = \<lparr>heap = [0 \<mapsto> cv], glob_c = None, glob_local = False, trace = []\<rparr>"

text \<open>
  \<^verbatim>\<open>filepath.Join\<close> on two clean, non-empty, relative elements, the only arguments it
  meets in the examples.
\<close>

definition join_simple :: "string \<Rightarrow> string \<Rightarrow> string" where
  "join_simple a b = a @ ''/'' @ b"

text \<open>
  A run where a certificate is cached, its domains differ from the requested ones, the
  ACME server cannot be reached (\<^verbatim>\<open>Obtain\<close> and \<^verbatim>\<open>renew\<close> fail), and the cached
  files are readable.
\<close>

definition env_acme_down :: env where
  "env_acme_down = \<lparr>
     filepath_Join = join_simple,
     os_OpenFile = (\<lambda>p. Inr 3),
     os_ReadFile = (\<lambda>p. Inr ''{}''),
     sonnet_Unmarshal = (\<lambda>b. Inr (CR ''old.example.com'' [])),
     certCached = (\<lambda>d. True),
     domainsChanged = (\<lambda>cp kp cv. True),
     getUser = Inr 1,
     createClient = (\<lambda>u ds. Inr 2),
     Obtain = (\<lambda>cl rq. Inl (Err ''acme: connection refused'')),
     saveCertToDisk = (\<lambda>r d. None),
     NewCertReloader = (\<lambda>cp kp lf cu. Inr 7),
     getACMECertResource = (\<lambda>cr. Resource (cr_Domain cr) (cr_material cr)),
     renew = (\<lambda>r. Some (Err ''renewal failed''))
   \<rparr>"

text \<open>The same run with a cached certificate that is not due for renewal.\<close>

definition env_obtain_fails :: env where
  "env_obtain_fails = env_acme_down\<lparr>renew := (\<lambda>r. None)\<rparr>"

text \<open>The same run with an empty cache directory.\<close>

definition env_no_cache :: env where
  "env_no_cache = env_acme_down\<lparr>certCached := (\<lambda>d. False)\<rparr>"

text \<open>A run where the ACME server answers.\<close>

definition env_acme_up :: env where
  "env_acme_up = env_acme_down\<lparr>
     Obtain := (\<lambda>cl rq. Inr (Resource ''example.com'' ''new'')),
     renew := (\<lambda>r. None)\<rparr>"

fun is_handler_call :: "event \<Rightarrow> bool" where
  "is_handler_call (EvFailedToRenewCertificate _ _) = True"
| "is_handler_call _ = False"

fun is_read_file :: "event \<Rightarrow> bool" where
  "is_read_file (EvReadFile _) = True"
| "is_read_file _ = False"

text \<open>The events a call added to the trace of the state \<open>s\<close> it started in.\<close>

definition new_events :: "pkg_state \<Rightarrow> pkg_state \<Rightarrow> event list" where
  "new_events s s' = drop (length (trace s)) (trace s')"

section \<open>Properties of CheckConfig\<close>

lemmas sentinel_defs =
  errors_New_def errNoDirectoryURL_def errNoMail_def errNoDomains_def errNoChallenge_def
  errNoCacheDir_def errNoRenewBefore_def errNoCheckInterval_def errNoCacheDirPerm_def
  errUnsupportedKeyType_def

lemmas keytype_defs = EC256_def EC384_def RSA2048_def RSA4096_def RSA8192_def

lemma map_index_supported:
  "map_index supportedKeyTypes k \<longleftrightarrow> k \<in> {''P256'', ''P384'', ''2048'', ''4096'', ''8192''}"
  by (simp add: map_index_def supportedKeyTypes_def keytype_defs)

lemma CheckConfig_error_no_log: "fst (CheckConfig c) = Some e \<Longrightarrow> snd (CheckConfig c) = []"
  by (simp add: CheckConfig.simps split: if_splits)

text \<open>
  \<^verbatim>\<open>CheckConfig\<close> returns what the specification's ordered list gives, except that a
  zero renew-before window is reported with the error of the cache directory.
\<close>

lemma CheckConfig_agrees_with_spec:
  "fst (CheckConfig c) =
     (if spec_first_violation c = Some errNoRenewBefore then Some errNoCacheDir
      else spec_first_violation c)"
  by (simp add: CheckConfig.simps spec_first_violation_def map_index_supported
      spec_supported_def sentinel_defs)

lemma spec_first_violation_hooks:
  "spec_first_violation (c\<lparr>WillRenewCertificate := w, DidRenewCertificate := d,
      FailedToRenewCertificate := f\<rparr>) = spec_first_violation c"
  by (simp add: spec_first_violation_def)

text \<open>
  C1 (fails on the code). The claim: CheckConfig returns the error of the first violated
  invariant, and a configuration whose only violation is a zero renew-before window is
  reported as \<open>errNoRenewBefore\<close>. On \<open>cfg_no_renew_before\<close> (every other field
  valid, the cache directory set) the code returns \<open>errNoCacheDir\<close>, a different error;
  the specification's list gives \<open>errNoRenewBefore\<close>.
\<close>

theorem CheckConfig_renew_before_zero:
  "fst (CheckConfig cfg_no_renew_before) = Some errNoCacheDir
   \<and> errNoCacheDir \<noteq> errNoRenewBefore
   \<and> CacheDir cfg_no_renew_before = ''letsencrypt''
   \<and> spec_first_violation cfg_no_renew_before = Some errNoRenewBefore"
  by (simp add: CheckConfig.simps spec_first_violation_def cfg_no_renew_before_def cfg_ok_def
      Default_def sentinel_defs)

text \<open>
  C8. For a configuration that passes every earlier check (cache directory, domains,
  contact address unless local, directory URL, a challenge, renew-before, check interval,
  cache directory permission), CheckConfig returns \<open>errUnsupportedKeyType\<close> exactly
  when the key type is none of P256, P384, 2048, 4096, 8192.
\<close>

theorem CheckConfig_unsupported_key_type:
  assumes "CacheDir c \<noteq> ''''" and "Domains c \<noteq> []" and "Local c \<or> SSLEmail c \<noteq> ''''"
    and "DirectoryURL c \<noteq> ''''"
    and "DNSProvider c \<noteq> '''' \<or> HTTPAddress c \<noteq> '''' \<or> TLSAddress c \<noteq> ''''"
    and "RenewBefore c \<noteq> 0" and "CheckInterval c \<noteq> 0" and "CacheDirPerm c \<noteq> 0"
  shows "fst (CheckConfig c) = Some errUnsupportedKeyType
     \<longleftrightarrow> KeyType c \<notin> {''P256'', ''P384'', ''2048'', ''4096'', ''8192''}"
  using assms
  by (auto simp add: CheckConfig.simps map_index_supported)

theorem CheckConfig_unsupported_key_type_witness:
  "fst (CheckConfig (cfg_ok\<lparr>KeyType := ''1024''\<rparr>)) = Some errUnsupportedKeyType
   \<and> fst (CheckConfig cfg_ok) \<noteq> Some errUnsupportedKeyType"
  using CheckConfig_unsupported_key_type [of "cfg_ok\<lparr>KeyType := ''1024''\<rparr>"]
    CheckConfig_unsupported_key_type [of cfg_ok]
  by (simp add: cfg_ok_def Default_def keytype_defs time_Hour_def)

lemma CheckConfig_accepted_log:
  "snd (CheckConfig c) =
     (if fst (CheckConfig c) = None then
        (if WillRenewCertificate c = None \<and> (HTTPAddress c \<noteq> '''' \<or> TLSAddress c \<noteq> '''')
         then [EvLog [Str ''[WARNING] no WillRenewCertificate handler specified, to handle graceful server shutdown!'']]
         else []) @
        (if DidRenewCertificate c = None \<and> (HTTPAddress c \<noteq> '''' \<or> TLSAddress c \<noteq> '''')
         then [EvLog [Str ''[WARNING] no DidRenewCertificate handler specified, to bring the service back up after renewing the certificate!'']]
         else []) @
        (if FailedToRenewCertificate c = None
         then [EvLog [Str ''[WARNING] no FailedToRenewCertificate handler specified! Simplecert will fatal on errors!'']]
         else [])
      else [])"
  by (simp add: CheckConfig.simps)

text \<open>
  C9 (amended). A configuration that satisfies every invariant of the ordered list is
  accepted whatever the three handlers are, set or unset: CheckConfig returns nil, never an
  error. What it logs is exactly this, in this order: the WillRenewCertificate warning when
  that handler is unset and HTTPAddress or TLSAddress is set; the DidRenewCertificate
  warning when that handler is unset and HTTPAddress or TLSAddress is set; the
  FailedToRenewCertificate warning when that handler is unset. So an unset
  FailedToRenewCertificate handler always produces its warning, while an unset
  WillRenewCertificate or DidRenewCertificate handler produces none on a configuration
  that uses only a DNS provider: the claim as stated, that missing handlers produce
  warnings, fails there (the counterexample below).
\<close>

theorem CheckConfig_hooks_optional:
  assumes "spec_first_violation c = None"
    and "c' = c\<lparr>WillRenewCertificate := w, DidRenewCertificate := d,
            FailedToRenewCertificate := f\<rparr>"
  shows "fst (CheckConfig c') = None
     \<and> snd (CheckConfig c') =
         (if w = None \<and> (HTTPAddress c \<noteq> '''' \<or> TLSAddress c \<noteq> '''')
          then [EvLog [Str ''[WARNING] no WillRenewCertificate handler specified, to handle graceful server shutdown!'']]
          else []) @
         (if d = None \<and> (HTTPAddress c \<noteq> '''' \<or> TLSAddress c \<noteq> '''')
          then [EvLog [Str ''[WARNING] no DidRenewCertificate handler specified, to bring the service back up after renewing the certificate!'']]
          else []) @
         (if f = None
          then [EvLog [Str ''[WARNING] no FailedToRenewCertificate handler specified! Simplecert will fatal on errors!'']]
          else [])"
proof -
  have acc: "fst (CheckConfig c') = None"
    using assms
    by (simp only: CheckConfig_agrees_with_spec spec_first_violation_hooks) simp
  from CheckConfig_accepted_log [of c'] acc assms(2) show ?thesis by simp
qed

theorem CheckConfig_hooks_optional_witness:
  "spec_first_violation cfg_ok = None
   \<and> CheckConfig cfg_ok =
       (None,
        [EvLog [Str ''[WARNING] no WillRenewCertificate handler specified, to handle graceful server shutdown!''],
         EvLog [Str ''[WARNING] no DidRenewCertificate handler specified, to bring the service back up after renewing the certificate!''],
         EvLog [Str ''[WARNING] no FailedToRenewCertificate handler specified! Simplecert will fatal on errors!'']])
   \<and> CheckConfig (cfg_ok\<lparr>WillRenewCertificate := Some 1, DidRenewCertificate := Some 2,
         FailedToRenewCertificate := Some 3\<rparr>) = (None, [])"
proof -
  have sv: "spec_first_violation cfg_ok = None"
    by (simp add: spec_first_violation_def spec_supported_def cfg_ok_def Default_def
        keytype_defs time_Hour_def)
  have same: "cfg_ok = cfg_ok\<lparr>WillRenewCertificate := None, DidRenewCertificate := None,
      FailedToRenewCertificate := None\<rparr>"
    by (simp add: cfg_ok_def Default_def)
  have addr: "HTTPAddress cfg_ok = '':80''" by (simp add: cfg_ok_def Default_def)
  from CheckConfig_hooks_optional [OF sv same] CheckConfig_hooks_optional [OF sv refl,
      where w = "Some 1" and d = "Some 2" and f = "Some 3"] sv addr
  show ?thesis by (simp add: prod_eq_iff)
qed

theorem CheckConfig_no_warning_counterexample:
  "spec_first_violation cfg_dns = None
   \<and> WillRenewCertificate cfg_dns = None \<and> DidRenewCertificate cfg_dns = None
   \<and> CheckConfig cfg_dns = (None, [])"
  by (simp add: CheckConfig.simps spec_first_violation_def spec_supported_def cfg_dns_def
      cfg_ok_def Default_def map_index_supported keytype_defs time_Hour_def)

text \<open>
  C10. \<open>Default\<close> as shipped is rejected with \<open>errNoDomains\<close>: its domain list is
  empty, and so is its contact address. With only the contact address filled in it is
  still rejected for the domains, with only the domains filled in it is rejected with
  \<open>errNoMail\<close>, and with both filled in it is accepted.
\<close>

theorem CheckConfig_Default:
  "fst (CheckConfig Default) = Some errNoDomains
   \<and> Domains Default = [] \<and> SSLEmail Default = ''''
   \<and> fst (CheckConfig (Default\<lparr>SSLEmail := m\<rparr>)) = Some errNoDomains
   \<and> (ds \<noteq> [] \<longrightarrow> fst (CheckConfig (Default\<lparr>Domains := ds\<rparr>)) = Some errNoMail)
   \<and> (ds \<noteq> [] \<and> m \<noteq> '''' \<longrightarrow>
        fst (CheckConfig (Default\<lparr>Domains := ds, SSLEmail := m\<rparr>)) = None)"
  by (simp add: CheckConfig.simps Default_def map_index_supported keytype_defs time_Hour_def)

theorem CheckConfig_Default_witness:
  "fst (CheckConfig Default) = Some errNoDomains
   \<and> fst (CheckConfig (Default\<lparr>Domains := [''example.com'']\<rparr>)) = Some errNoMail
   \<and> fst (CheckConfig (Default\<lparr>Domains := [''example.com''],
        SSLEmail := ''admin@example.com''\<rparr>)) = None"
  using CheckConfig_Default [of "''admin@example.com''" "[''example.com'']"]
  by simp

section \<open>Properties of Init and loadStoredCert\<close>

subsection \<open>Reading the state and the concrete runs\<close>

lemma emit_simps [simp]:
  "heap (emit e s) = heap s" "glob_c (emit e s) = glob_c s"
  "glob_local (emit e s) = glob_local s" "trace (emit e s) = trace s @ [e]"
  "deref_c (emit e s) = deref_c s"
  by (simp_all add: emit_def deref_c_def split: option.splits)

lemma emits_simps [simp]:
  "heap (emits es s) = heap s" "glob_c (emits es s) = glob_c s"
  "glob_local (emits es s) = glob_local s" "trace (emits es s) = trace s @ es"
  "deref_c (emits es s) = deref_c s" "emits [] s = s"
  by (simp_all add: emits_def deref_c_def split: option.splits)

lemma new_events_append [simp]: "trace s' = trace s @ es \<Longrightarrow> new_events s s' = es"
  by (simp add: new_events_def)

lemma CheckConfig_cfg_ok:
  "CheckConfig cfg_ok =
    (None,
     [EvLog [Str ''[WARNING] no WillRenewCertificate handler specified, to handle graceful server shutdown!''],
      EvLog [Str ''[WARNING] no DidRenewCertificate handler specified, to bring the service back up after renewing the certificate!''],
      EvLog [Str ''[WARNING] no FailedToRenewCertificate handler specified! Simplecert will fatal on errors!'']])"
  by (simp add: CheckConfig.simps cfg_ok_def Default_def map_index_supported keytype_defs
      time_Hour_def)

lemma CheckConfig_cfg_local: "CheckConfig cfg_local = (None, snd (CheckConfig cfg_ok))"
  by (simp add: CheckConfig.simps cfg_local_def cfg_ok_def Default_def map_index_supported
      keytype_defs time_Hour_def)

lemma CheckConfig_Default_rejected: "fst (CheckConfig Default) = Some errNoDomains"
  by (simp add: CheckConfig.simps Default_def)

lemma cfg_ok_fields:
  "CacheDir cfg_ok = ''letsencrypt''" "Local cfg_ok = False"
  "Domains cfg_ok = [''example.com'']" "DNSServers cfg_ok = []"
  "FailedToRenewCertificate cfg_ok = None" "UpdateHosts cfg_ok = True"
  by (simp_all add: cfg_ok_def Default_def)

lemma init_state_fields:
  "heap (init_state cv) 0 = Some cv" "glob_c (init_state cv) = None"
  "trace (init_state cv) = []"
  by (simp_all add: init_state_def)

lemma env_acme_down_fields:
  "filepath_Join env_acme_down = join_simple"
  "os_OpenFile env_acme_down p = Inr 3"
  "os_ReadFile env_acme_down p = Inr ''{}''"
  "sonnet_Unmarshal env_acme_down b = Inr (CR ''old.example.com'' [])"
  "certCached env_acme_down d = True"
  "domainsChanged env_acme_down cp kp cv = True"
  "getUser env_acme_down = Inr 1"
  "createClient env_acme_down u ds = Inr 2"
  "Obtain env_acme_down cl rq = Inl (Err ''acme: connection refused'')"
  "saveCertToDisk env_acme_down r d = None"
  "NewCertReloader env_acme_down cp kp lf cu = Inr 7"
  "getACMECertResource env_acme_down cr = Resource (cr_Domain cr) (cr_material cr)"
  "renew env_acme_down r = Some (Err ''renewal failed'')"
  by (simp_all add: env_acme_down_def)

lemma env_obtain_fails_fields:
  "filepath_Join env_obtain_fails = join_simple"
  "os_OpenFile env_obtain_fails p = Inr 3"
  "os_ReadFile env_obtain_fails p = Inr ''{}''"
  "sonnet_Unmarshal env_obtain_fails b = Inr (CR ''old.example.com'' [])"
  "certCached env_obtain_fails d = True"
  "domainsChanged env_obtain_fails cp kp cv = True"
  "getUser env_obtain_fails = Inr 1"
  "createClient env_obtain_fails u ds = Inr 2"
  "Obtain env_obtain_fails cl rq = Inl (Err ''acme: connection refused'')"
  "saveCertToDisk env_obtain_fails r d = None"
  "NewCertReloader env_obtain_fails cp kp lf cu = Inr 7"
  "getACMECertResource env_obtain_fails cr = Resource (cr_Domain cr) (cr_material cr)"
  "renew env_obtain_fails r = None"
  by (simp_all add: env_obtain_fails_def env_acme_down_def)

lemmas file_names = logFileName_def certResourceFileName_def certFileName_def keyFileName_def

lemma env_acme_up_fields:
  "filepath_Join env_acme_up = join_simple"
  "os_OpenFile env_acme_up p = Inr 3"
  "os_ReadFile env_acme_up p = Inr ''{}''"
  "sonnet_Unmarshal env_acme_up b = Inr (CR ''old.example.com'' [])"
  "certCached env_acme_up d = True"
  "domainsChanged env_acme_up cp kp cv = True"
  "getUser env_acme_up = Inr 1"
  "createClient env_acme_up u ds = Inr 2"
  "Obtain env_acme_up cl rq = Inr (Resource ''example.com'' ''new'')"
  "saveCertToDisk env_acme_up r d = None"
  "NewCertReloader env_acme_up cp kp lf cu = Inr 7"
  "getACMECertResource env_acme_up cr = Resource (cr_Domain cr) (cr_material cr)"
  "renew env_acme_up r = None"
  by (simp_all add: env_acme_up_def env_acme_down_def)

lemma cfg_local_fields:
  "CacheDir cfg_local = ''letsencrypt''" "Local cfg_local = True"
  "Domains cfg_local = [''example.com'']" "DNSServers cfg_local = []"
  "FailedToRenewCertificate cfg_local = None" "UpdateHosts cfg_local = True"
  by (simp_all add: cfg_local_def cfg_ok_def Default_def)

lemma cfg_hook_fields:
  "CacheDir cfg_hook = ''letsencrypt''" "FailedToRenewCertificate cfg_hook = Some 1"
  by (simp_all add: cfg_hook_def cfg_ok_def Default_def)

lemma env_no_cache_fields:
  "filepath_Join env_no_cache = join_simple"
  "os_OpenFile env_no_cache p = Inr 3"
  "certCached env_no_cache d = False"
  "getUser env_no_cache = Inr 1"
  "createClient env_no_cache u ds = Inr 2"
  "Obtain env_no_cache cl rq = Inl (Err ''acme: connection refused'')"
  by (simp_all add: env_no_cache_def env_acme_down_def)

subsection \<open>What the startup path leaves alone\<close>

lemma loadStoredCert_frame:
  "heap (snd (loadStoredCert E cp kp lf cu s)) = heap s
   \<and> glob_c (snd (loadStoredCert E cp kp lf cu s)) = glob_c s"
  by (simp add: loadStoredCert_def Let_def split: option.splits sum.splits)

lemma obtainNewCert_frame:
  "heap (snd (obtainNewCert E cp kp lf cu dc s)) = heap s
   \<and> glob_c (snd (obtainNewCert E cp kp lf cu dc s)) = glob_c s"
  by (simp add: obtainNewCert_def Let_def loadStoredCert_frame split: option.splits sum.splits)

lemma Init_local_frame:
  "heap (snd (Init_local E a cv lf cu s)) =
     (heap s)(a \<mapsto> cv\<lparr>CacheDir := filepath_Join E (CacheDir cv) ''local''\<rparr>)
   \<and> glob_c (snd (Init_local E a cv lf cu s)) = glob_c s"
  by (simp add: Init_local_def Let_def)

lemma loadStoredCert_succeeds:
  assumes "deref_c s = Some cv"
    and "os_ReadFile E (filepath_Join E (CacheDir cv) certResourceFileName) = Inr b"
    and "sonnet_Unmarshal E b = Inr cr"
    and "renew E (getACMECertResource E cr) = None \<or> FailedToRenewCertificate cv \<noteq> None"
  shows "fst (loadStoredCert E cp kp lf cu s) = NewCertReloader E cp kp lf cu"
  using assms by (auto simp add: loadStoredCert_def Let_def split: option.splits)

lemma loadStoredCert_trace_prefix:
  "\<exists>es. trace (snd (loadStoredCert E cp kp lf cu s)) = trace s @ es"
  by (simp add: loadStoredCert_def Let_def split: option.splits sum.splits)

subsection \<open>Validation gates everything\<close>

text \<open>
  C6. When CheckConfig rejects the configuration, Init returns that error and nothing
  else happens: the state it returns is the state it started in, so the trace has no new
  event (no directory created, no log file opened, no file written, no ACME call), and the
  package variables and the caller's struct are untouched.
\<close>

theorem Init_invalid_config:
  assumes "heap s cfg = Some cv" and "fst (CheckConfig cv) = Some err"
  shows "Init E cfg cleanup s = (Inl err, s) \<and> new_events s (snd (Init E cfg cleanup s)) = []"
proof -
  from assms(2) have "snd (CheckConfig cv) = []" by (rule CheckConfig_error_no_log)
  with assms(2) have "CheckConfig cv = (Some err, [])" by (simp add: prod_eq_iff)
  with assms(1) show ?thesis by (simp add: Init_def)
qed

theorem Init_invalid_config_witness:
  "Init env_acme_up 0 0 (init_state Default) = (Inl errNoDomains, init_state Default)"
  using Init_invalid_config [of "init_state Default" 0 Default errNoDomains env_acme_up 0]
    CheckConfig_Default_rejected
  by (simp add: init_state_fields)

subsection \<open>loadStoredCert: a failed renewal at startup\<close>

text \<open>
  C2. The cached resource was read and parsed, and the renewal check on it fails with
  \<open>errRenew\<close>. With a FailedToRenewCertificate handler \<open>h\<close> configured,
  loadStoredCert calls the handler once, with \<open>errRenew\<close>, starts the renewal routine and
  returns the reloader it built over the cached certificate and key before the check.
  With no handler it returns an error and no reloader, calls no handler and starts no
  renewal routine.
\<close>

theorem loadStoredCert_renewal_failure:
  assumes "deref_c s = Some cv"
    and "os_ReadFile E (filepath_Join E (CacheDir cv) certResourceFileName) = Inr b"
    and "sonnet_Unmarshal E b = Inr cr"
    and "renew E (getACMECertResource E cr) = Some errRenew"
  shows "(FailedToRenewCertificate cv = Some h \<longrightarrow>
            fst (loadStoredCert E cp kp lf cu s) = NewCertReloader E cp kp lf cu
          \<and> filter is_handler_call (new_events s (snd (loadStoredCert E cp kp lf cu s)))
              = [EvFailedToRenewCertificate h errRenew]
          \<and> last (trace (snd (loadStoredCert E cp kp lf cu s)))
              = EvGoRenewalRoutine (getACMECertResource E cr))
       \<and> (FailedToRenewCertificate cv = None \<longrightarrow>
            fst (loadStoredCert E cp kp lf cu s) =
              Inl (errors_New (''simplecert: failed to renew cached cert on startup and no failedToRenewCert handler is configured: '' @ Error errRenew))
          \<and> filter is_handler_call (new_events s (snd (loadStoredCert E cp kp lf cu s))) = []
          \<and> last (trace (snd (loadStoredCert E cp kp lf cu s)))
              = EvRenew (getACMECertResource E cr))"
  using assms by (simp add: loadStoredCert_def Let_def)

theorem loadStoredCert_renewal_failure_witness:
  "fst (loadStoredCert env_acme_down ''letsencrypt/cert.pem'' ''letsencrypt/key.pem'' 3 0
          ((init_state cfg_hook)\<lparr>glob_c := Some 0\<rparr>)) = Inr 7
   \<and> filter is_handler_call (trace (snd (loadStoredCert env_acme_down ''letsencrypt/cert.pem''
          ''letsencrypt/key.pem'' 3 0 ((init_state cfg_hook)\<lparr>glob_c := Some 0\<rparr>))))
      = [EvFailedToRenewCertificate 1 (Err ''renewal failed'')]
   \<and> fst (loadStoredCert env_acme_down ''letsencrypt/cert.pem'' ''letsencrypt/key.pem'' 3 0
          ((init_state cfg_ok)\<lparr>glob_c := Some 0\<rparr>)) =
        Inl (Err ''simplecert: failed to renew cached cert on startup and no failedToRenewCert handler is configured: renewal failed'')"
proof -
  have d: "deref_c ((init_state cv)\<lparr>glob_c := Some 0\<rparr>) = Some cv" for cv
    by (simp add: deref_c_def init_state_fields)
  have t: "trace ((init_state cv)\<lparr>glob_c := Some 0\<rparr>) = []" for cv
    by (simp add: init_state_fields)
  note hook = loadStoredCert_renewal_failure [where E = env_acme_down and b = "''{}''"
      and cr = "CR ''old.example.com'' []" and errRenew = "Err ''renewal failed''" and h = 1
      and cp = "''letsencrypt/cert.pem''" and kp = "''letsencrypt/key.pem''" and lf = 3
      and cu = 0, OF d [of cfg_hook] env_acme_down_fields(3) env_acme_down_fields(4)
      env_acme_down_fields(13), THEN conjunct1]
  note nohook = loadStoredCert_renewal_failure [where E = env_acme_down and b = "''{}''"
      and cr = "CR ''old.example.com'' []" and errRenew = "Err ''renewal failed''" and h = 1
      and cp = "''letsencrypt/cert.pem''" and kp = "''letsencrypt/key.pem''" and lf = 3
      and cu = 0, OF d [of cfg_ok] env_acme_down_fields(3) env_acme_down_fields(4)
      env_acme_down_fields(13), THEN conjunct2]
  from hook nohook show ?thesis
    by (simp add: new_events_def t cfg_hook_fields cfg_ok_fields env_acme_down_fields
        errors_New_def)
qed

subsection \<open>Init: obtaining a certificate\<close>

text \<open>
  C5. No certificate is cached and the ACME Obtain call fails (so the run is not in local
  mode, and the ACME user and client were created): Init returns the error
  "failed to obtain cert" and no reloader, and the Obtain call is the last thing it did:
  nothing is read from the cache and no reloader is built.
\<close>

theorem Init_initial_issuance_failure:
  assumes "heap s cfg = Some cv" and "fst (CheckConfig cv) = None"
    and "os_OpenFile E (filepath_Join E (CacheDir cv) logFileName) = Inr lf"
    and "\<not> Local cv" and "\<not> certCached E (CacheDir cv)"
    and "getUser E = Inr u" and "createClient E u (DNSServers cv) = Inr cl"
    and "Obtain E cl \<lparr>req_Domains = Domains cv, req_Bundle = True\<rparr> = Inl err"
  shows "fst (Init E cfg cleanup s) =
           Inl (errors_New (''simplecert: failed to obtain cert: '' @ Error err))
     \<and> new_events s (snd (Init E cfg cleanup s)) =
         snd (CheckConfig cv) @
         [EvEnsureCacheDirExists (CacheDir cv),
          EvOpenFile (filepath_Join E (CacheDir cv) logFileName),
          EvSetOutput lf,
          EvCertCached (CacheDir cv),
          EvGetUser,
          EvCreateClient u (DNSServers cv),
          EvObtain cl \<lparr>req_Domains = Domains cv, req_Bundle = True\<rparr>]"
proof -
  obtain logged where cc: "CheckConfig cv = (None, logged)"
    using assms(2) by (cases "CheckConfig cv") simp
  show ?thesis
    using assms cc
    by (simp add: Init_def obtainNewCert_def Let_def deref_c_def)
qed

theorem Init_initial_issuance_failure_witness:
  "fst (Init env_no_cache 0 0 (init_state cfg_ok)) =
     Inl (Err ''simplecert: failed to obtain cert: acme: connection refused'')"
proof -
  have ok: "fst (CheckConfig cfg_ok) = None" by (simp add: CheckConfig_cfg_ok)
  have "fst (Init env_no_cache 0 0 (init_state cfg_ok)) =
      Inl (errors_New (''simplecert: failed to obtain cert: ''
             @ Error (Err ''acme: connection refused'')))"
    by (rule Init_initial_issuance_failure [where cv = cfg_ok and lf = 3 and u = 1 and cl = 2,
          THEN conjunct1])
      (simp_all add: ok init_state_fields cfg_ok_fields env_no_cache_fields)
  then show ?thesis by (simp add: errors_New_def)
qed

text \<open>
  C3 (amended). A certificate is cached, the requested domains differ from its domains, and
  the Obtain call fails. Init does not return the Obtain error: it logs it and returns
  what loadStoredCert returns for the cached certificate and key. That is the reloader over
  the cached files when the stored resource is read and parsed and the startup renewal
  check passes or a failure handler is configured. Otherwise it is the error of
  loadStoredCert: the claim as stated, that Init returns no error, fails when the renewal
  check fails and no handler is configured (the counterexample below).
\<close>

theorem Init_fallback_to_cached:
  assumes "heap s cfg = Some cv" and "fst (CheckConfig cv) = None"
    and "os_OpenFile E (filepath_Join E (CacheDir cv) logFileName) = Inr lf"
    and "\<not> Local cv" and "certCached E (CacheDir cv)"
    and "cp = filepath_Join E (CacheDir cv) certFileName"
    and "kp = filepath_Join E (CacheDir cv) keyFileName"
    and "domainsChanged E cp kp cv"
    and "getUser E = Inr u" and "createClient E u (DNSServers cv) = Inr cl"
    and "Obtain E cl \<lparr>req_Domains = Domains cv, req_Bundle = True\<rparr> = Inl err"
  shows "(\<exists>s'. Init E cfg cleanup s = loadStoredCert E cp kp lf cleanup s'
            \<and> deref_c s' = Some cv
            \<and> new_events s s' = snd (CheckConfig cv) @
                [EvEnsureCacheDirExists (CacheDir cv),
                 EvOpenFile (filepath_Join E (CacheDir cv) logFileName),
                 EvSetOutput lf,
                 EvCertCached (CacheDir cv),
                 EvDomainsChanged cp kp,
                 EvLog [Str ''[INFO] domains have changed. Obtaining a new certificate...''],
                 EvGetUser,
                 EvCreateClient u (DNSServers cv),
                 EvObtain cl \<lparr>req_Domains = Domains cv, req_Bundle = True\<rparr>,
                 EvLog [Str ''[ERROR] simplecert: failed to obtain new cert for changed domains: '',
                        Strs (Domains cv), Str '' error: '', ErrArg err],
                 EvLog [Str ''[INFO] simplecert: loading cached certificate from disk'']])
     \<and> (os_ReadFile E (filepath_Join E (CacheDir cv) certResourceFileName) = Inr b
          \<and> sonnet_Unmarshal E b = Inr cr
          \<and> (renew E (getACMECertResource E cr) = None \<or> FailedToRenewCertificate cv \<noteq> None)
         \<longrightarrow> fst (Init E cfg cleanup s) = NewCertReloader E cp kp lf cleanup)"
proof -
  obtain logged where cc: "CheckConfig cv = (None, logged)"
    using assms(2) by (cases "CheckConfig cv") simp
  define s' where "s' =
    emit (EvLog [Str ''[INFO] simplecert: loading cached certificate from disk''])
     (emit (EvLog [Str ''[ERROR] simplecert: failed to obtain new cert for changed domains: '',
                   Strs (Domains cv), Str '' error: '', ErrArg err])
      (emit (EvObtain cl \<lparr>req_Domains = Domains cv, req_Bundle = True\<rparr>)
       (emit (EvCreateClient u (DNSServers cv))
        (emit EvGetUser
         (emit (EvLog [Str ''[INFO] domains have changed. Obtaining a new certificate...''])
          (emit (EvDomainsChanged cp kp)
           (emit (EvCertCached (CacheDir cv))
            (emit (EvSetOutput lf)
             (emit (EvOpenFile (filepath_Join E (CacheDir cv) logFileName))
              (emit (EvEnsureCacheDirExists (CacheDir cv))
               ((emits logged s)\<lparr>glob_c := Some cfg\<rparr>)))))))))))"
  have run: "Init E cfg cleanup s = loadStoredCert E cp kp lf cleanup s'"
    using assms cc
    by (simp add: Init_def obtainNewCert_def Let_def deref_c_def s'_def)
  have d: "deref_c s' = Some cv"
    using assms(1) by (simp add: s'_def) (simp add: deref_c_def)
  have t: "trace s' = trace s @ logged @
                [EvEnsureCacheDirExists (CacheDir cv),
                 EvOpenFile (filepath_Join E (CacheDir cv) logFileName),
                 EvSetOutput lf,
                 EvCertCached (CacheDir cv),
                 EvDomainsChanged cp kp,
                 EvLog [Str ''[INFO] domains have changed. Obtaining a new certificate...''],
                 EvGetUser,
                 EvCreateClient u (DNSServers cv),
                 EvObtain cl \<lparr>req_Domains = Domains cv, req_Bundle = True\<rparr>,
                 EvLog [Str ''[ERROR] simplecert: failed to obtain new cert for changed domains: '',
                        Strs (Domains cv), Str '' error: '', ErrArg err],
                 EvLog [Str ''[INFO] simplecert: loading cached certificate from disk'']]"
    by (simp add: s'_def)
  have first: "\<exists>s'. Init E cfg cleanup s = loadStoredCert E cp kp lf cleanup s'
            \<and> deref_c s' = Some cv
            \<and> new_events s s' = snd (CheckConfig cv) @
                [EvEnsureCacheDirExists (CacheDir cv),
                 EvOpenFile (filepath_Join E (CacheDir cv) logFileName),
                 EvSetOutput lf,
                 EvCertCached (CacheDir cv),
                 EvDomainsChanged cp kp,
                 EvLog [Str ''[INFO] domains have changed. Obtaining a new certificate...''],
                 EvGetUser,
                 EvCreateClient u (DNSServers cv),
                 EvObtain cl \<lparr>req_Domains = Domains cv, req_Bundle = True\<rparr>,
                 EvLog [Str ''[ERROR] simplecert: failed to obtain new cert for changed domains: '',
                        Strs (Domains cv), Str '' error: '', ErrArg err],
                 EvLog [Str ''[INFO] simplecert: loading cached certificate from disk'']]"
    using run d new_events_append [OF t] cc by (intro exI [of _ s']) simp
  have second: "os_ReadFile E (filepath_Join E (CacheDir cv) certResourceFileName) = Inr b
          \<and> sonnet_Unmarshal E b = Inr cr
          \<and> (renew E (getACMECertResource E cr) = None \<or> FailedToRenewCertificate cv \<noteq> None)
         \<longrightarrow> fst (Init E cfg cleanup s) = NewCertReloader E cp kp lf cleanup"
    using run loadStoredCert_succeeds [OF d, of E b cr cp kp lf cleanup] by simp
  from first second show ?thesis by (rule conjI)
qed

theorem Init_fallback_to_cached_witness:
  "fst (Init env_obtain_fails 0 0 (init_state cfg_ok)) = Inr 7"
proof -
  have cc: "fst (CheckConfig cfg_ok) = None" by (simp add: CheckConfig_cfg_ok)
  have "fst (Init env_obtain_fails 0 0 (init_state cfg_ok)) =
      NewCertReloader env_obtain_fails ''letsencrypt/cert.pem'' ''letsencrypt/key.pem'' 3 0"
    by (rule Init_fallback_to_cached [where cv = cfg_ok and u = 1 and cl = 2 and b = "''{}''"
          and cr = "CR ''old.example.com'' []" and err = "Err ''acme: connection refused''",
          THEN conjunct2, rule_format])
      (simp_all add: cc init_state_fields cfg_ok_fields env_obtain_fails_fields
        join_simple_def file_names)
  then show ?thesis by (simp add: env_obtain_fails_fields)
qed

theorem Init_fallback_can_fail_counterexample:
  "certCached env_acme_down (CacheDir cfg_ok)
   \<and> domainsChanged env_acme_down ''letsencrypt/cert.pem'' ''letsencrypt/key.pem'' cfg_ok
   \<and> Obtain env_acme_down 2 \<lparr>req_Domains = [''example.com''], req_Bundle = True\<rparr>
       = Inl (Err ''acme: connection refused'')
   \<and> EvObtain 2 \<lparr>req_Domains = [''example.com''], req_Bundle = True\<rparr>
       \<in> set (trace (snd (Init env_acme_down 0 0 (init_state cfg_ok))))
   \<and> fst (Init env_acme_down 0 0 (init_state cfg_ok)) =
       Inl (Err ''simplecert: failed to renew cached cert on startup and no failedToRenewCert handler is configured: renewal failed'')"
  by (simp add: Init_def obtainNewCert_def loadStoredCert_def Let_def CheckConfig_cfg_ok
      init_state_fields cfg_ok_fields env_acme_down_fields join_simple_def deref_c_def
      errors_New_def file_names)

text \<open>
  C4 (amended). A certificate is cached and the requested domains differ from its domains.
  In local mode Init generates a new local certificate and builds the reloader over it. In
  ACME mode Init does not load the cached certificate first: once the ACME user and client
  are created, it calls Obtain for the requested domains, and nothing before that call
  reads the cache or consults the renewal check. The stored resource is read afterwards
  only if Obtain failed (the fallback of C3); when Obtain succeeds the run does not depend
  on the renewal check at all. The claim as stated, that Init never loads the cached
  certificate on such a startup, fails when Obtain fails (the counterexample below).
\<close>

theorem Init_domains_changed:
  assumes "heap s cfg = Some cv" and "fst (CheckConfig cv) = None"
    and "os_OpenFile E (filepath_Join E (CacheDir cv) logFileName) = Inr lf"
    and "dl = filepath_Join E (CacheDir cv) ''local''"
    and "cpl = filepath_Join E dl certFileName" and "kpl = filepath_Join E dl keyFileName"
    and "cp = filepath_Join E (CacheDir cv) certFileName"
    and "kp = filepath_Join E (CacheDir cv) keyFileName"
    and "rq = \<lparr>req_Domains = Domains cv, req_Bundle = True\<rparr>"
  shows "(Local cv \<and> certCached E dl \<and> domainsChanged E cpl kpl (cv\<lparr>CacheDir := dl\<rparr>) \<longrightarrow>
            new_events s (snd (Init E cfg cleanup s)) =
              snd (CheckConfig cv) @
              [EvEnsureCacheDirExists (CacheDir cv),
               EvOpenFile (filepath_Join E (CacheDir cv) logFileName),
               EvSetOutput lf,
               EvEnsureCacheDirExists dl,
               EvCertCached dl,
               EvDomainsChanged cpl kpl,
               EvLog [Str ''[INFO] cert cached but domains have changed. generating a new one...''],
               EvCreateLocalCert cpl kpl] @
              (if UpdateHosts cv then [EvUpdateHosts] else []) @
              [EvNewCertReloader cpl kpl lf cleanup])
     \<and> (\<not> Local cv \<and> certCached E (CacheDir cv) \<and> domainsChanged E cp kp cv
          \<and> getUser E = Inr u \<and> createClient E u (DNSServers cv) = Inr cl \<longrightarrow>
          (\<exists>rest. new_events s (snd (Init E cfg cleanup s)) =
              snd (CheckConfig cv) @
              [EvEnsureCacheDirExists (CacheDir cv),
               EvOpenFile (filepath_Join E (CacheDir cv) logFileName),
               EvSetOutput lf,
               EvCertCached (CacheDir cv),
               EvDomainsChanged cp kp,
               EvLog [Str ''[INFO] domains have changed. Obtaining a new certificate...''],
               EvGetUser,
               EvCreateClient u (DNSServers cv),
               EvObtain cl rq] @ rest
            \<and> (filter is_read_file rest \<noteq> [] \<longrightarrow> isl (Obtain E cl rq))
            \<and> (\<not> isl (Obtain E cl rq) \<longrightarrow>
                  Init (E\<lparr>renew := r'\<rparr>) cfg cleanup s = Init E cfg cleanup s)))"
proof -
  obtain logged where cc: "CheckConfig cv = (None, logged)"
    using assms(2) by (cases "CheckConfig cv") simp
  have loc: "Local cv \<and> certCached E dl \<and> domainsChanged E cpl kpl (cv\<lparr>CacheDir := dl\<rparr>) \<longrightarrow>
            new_events s (snd (Init E cfg cleanup s)) =
              snd (CheckConfig cv) @
              [EvEnsureCacheDirExists (CacheDir cv),
               EvOpenFile (filepath_Join E (CacheDir cv) logFileName),
               EvSetOutput lf,
               EvEnsureCacheDirExists dl,
               EvCertCached dl,
               EvDomainsChanged cpl kpl,
               EvLog [Str ''[INFO] cert cached but domains have changed. generating a new one...''],
               EvCreateLocalCert cpl kpl] @
              (if UpdateHosts cv then [EvUpdateHosts] else []) @
              [EvNewCertReloader cpl kpl lf cleanup]"
    using assms(1,3-6) cc
    by (simp add: Init_def Init_local_def Let_def new_events_def)
  have acme: "\<exists>rest. new_events s (snd (Init E cfg cleanup s)) =
              snd (CheckConfig cv) @
              [EvEnsureCacheDirExists (CacheDir cv),
               EvOpenFile (filepath_Join E (CacheDir cv) logFileName),
               EvSetOutput lf,
               EvCertCached (CacheDir cv),
               EvDomainsChanged cp kp,
               EvLog [Str ''[INFO] domains have changed. Obtaining a new certificate...''],
               EvGetUser,
               EvCreateClient u (DNSServers cv),
               EvObtain cl rq] @ rest
            \<and> (filter is_read_file rest \<noteq> [] \<longrightarrow> isl (Obtain E cl rq))
            \<and> (\<not> isl (Obtain E cl rq) \<longrightarrow>
                  Init (E\<lparr>renew := r'\<rparr>) cfg cleanup s = Init E cfg cleanup s)"
    if h: "\<not> Local cv" "certCached E (CacheDir cv)" "domainsChanged E cp kp cv"
      "getUser E = Inr u" "createClient E u (DNSServers cv) = Inr cl"
  proof (cases "Obtain E cl rq")
    case (Inl err)
    let ?s' = "emit (EvLog [Str ''[INFO] simplecert: loading cached certificate from disk''])
     (emit (EvLog [Str ''[ERROR] simplecert: failed to obtain new cert for changed domains: '',
                   Strs (Domains cv), Str '' error: '', ErrArg err])
      (emit (EvObtain cl rq)
       (emit (EvCreateClient u (DNSServers cv))
        (emit EvGetUser
         (emit (EvLog [Str ''[INFO] domains have changed. Obtaining a new certificate...''])
          (emit (EvDomainsChanged cp kp)
           (emit (EvCertCached (CacheDir cv))
            (emit (EvSetOutput lf)
             (emit (EvOpenFile (filepath_Join E (CacheDir cv) logFileName))
              (emit (EvEnsureCacheDirExists (CacheDir cv))
               ((emits logged s)\<lparr>glob_c := Some cfg\<rparr>)))))))))))"
    have run: "Init E cfg cleanup s = loadStoredCert E cp kp lf cleanup ?s'"
      using assms(1,3,7-9) h cc Inl
      by (simp add: Init_def obtainNewCert_def Let_def deref_c_def)
    obtain es where es: "trace (snd (loadStoredCert E cp kp lf cleanup ?s')) = trace ?s' @ es"
      using loadStoredCert_trace_prefix by blast
    show ?thesis
      using run es cc Inl by (simp add: new_events_def)
  next
    case (Inr cert)
    have "new_events s (snd (Init E cfg cleanup s)) =
              snd (CheckConfig cv) @
              [EvEnsureCacheDirExists (CacheDir cv),
               EvOpenFile (filepath_Join E (CacheDir cv) logFileName),
               EvSetOutput lf,
               EvCertCached (CacheDir cv),
               EvDomainsChanged cp kp,
               EvLog [Str ''[INFO] domains have changed. Obtaining a new certificate...''],
               EvGetUser,
               EvCreateClient u (DNSServers cv),
               EvObtain cl rq] @
              (case saveCertToDisk E cert (CacheDir cv) of
                 Some e \<Rightarrow>
                   [EvLog [Str ''[INFO] simplecert: client obtained cert for domain: '',
                           Str (Domain cert)],
                    EvSaveCertToDisk cert (CacheDir cv)]
               | None \<Rightarrow>
                   [EvLog [Str ''[INFO] simplecert: client obtained cert for domain: '',
                           Str (Domain cert)],
                    EvSaveCertToDisk cert (CacheDir cv),
                    EvLog [Str ''[INFO] simplecert: wrote new cert to disk!''],
                    EvGoRenewalRoutine cert,
                    EvNewCertReloader cp kp lf cleanup])"
      using assms(1,3,7-9) h cc Inr
      by (simp add: Init_def obtainNewCert_def Let_def deref_c_def new_events_def
          split: option.splits)
    moreover have "Init (E\<lparr>renew := r'\<rparr>) cfg cleanup s = Init E cfg cleanup s"
      using assms(1,3,7-9) h cc Inr
      by (simp add: Init_def obtainNewCert_def Let_def deref_c_def split: option.splits)
    ultimately show ?thesis
      using Inr by (auto split: option.splits)
  qed
  from loc acme show ?thesis by blast
qed

theorem Init_domains_changed_witness:
  "filter is_read_file (trace (snd (Init env_acme_up 0 0 (init_state cfg_ok)))) = []
   \<and> EvObtain 2 \<lparr>req_Domains = [''example.com''], req_Bundle = True\<rparr>
       \<in> set (trace (snd (Init env_acme_up 0 0 (init_state cfg_ok))))
   \<and> EvCreateLocalCert ''letsencrypt/local/cert.pem'' ''letsencrypt/local/key.pem''
       \<in> set (trace (snd (Init env_acme_up 0 0 (init_state cfg_local))))"
proof -
  have ok: "fst (CheckConfig cfg_ok) = None" by (simp add: CheckConfig_cfg_ok)
  have lo: "fst (CheckConfig cfg_local) = None" by (simp add: CheckConfig_cfg_local)
  have op: "os_OpenFile env_acme_up (filepath_Join env_acme_up (CacheDir cv) logFileName) = Inr 3"
    for cv by (simp add: env_acme_up_fields)
  note acme = Init_domains_changed [where s = "init_state cfg_ok" and cfg = 0 and cv = cfg_ok
      and E = env_acme_up and lf = 3 and cleanup = 0 and u = 1 and cl = 2
      and r' = "\<lambda>r. None", OF init_state_fields(1) ok op refl refl refl refl refl refl,
      THEN conjunct2]
  note loc = Init_domains_changed [where s = "init_state cfg_local" and cfg = 0
      and cv = cfg_local and E = env_acme_up and lf = 3 and cleanup = 0 and u = 1 and cl = 2
      and r' = "\<lambda>r. None", OF init_state_fields(1) lo op refl refl refl refl refl refl,
      THEN conjunct1]
  have a: "filter is_read_file (trace (snd (Init env_acme_up 0 0 (init_state cfg_ok)))) = []
   \<and> EvObtain 2 \<lparr>req_Domains = [''example.com''], req_Bundle = True\<rparr>
       \<in> set (trace (snd (Init env_acme_up 0 0 (init_state cfg_ok))))"
    using acme
    by (auto simp add: new_events_def init_state_fields cfg_ok_fields env_acme_up_fields
        CheckConfig_cfg_ok)
  have l: "EvCreateLocalCert ''letsencrypt/local/cert.pem'' ''letsencrypt/local/key.pem''
       \<in> set (trace (snd (Init env_acme_up 0 0 (init_state cfg_local))))"
    using loc
    by (simp add: new_events_def init_state_fields cfg_local_fields env_acme_up_fields
        join_simple_def file_names)
  from a l show ?thesis by simp
qed

theorem Init_loads_cached_counterexample:
  "certCached env_obtain_fails (CacheDir cfg_ok)
   \<and> domainsChanged env_obtain_fails ''letsencrypt/cert.pem'' ''letsencrypt/key.pem'' cfg_ok
   \<and> filter is_read_file (trace (snd (Init env_obtain_fails 0 0 (init_state cfg_ok))))
       = [EvReadFile ''letsencrypt/CertResource.json'']
   \<and> last (trace (snd (Init env_obtain_fails 0 0 (init_state cfg_ok))))
       = EvGoRenewalRoutine (Resource ''old.example.com'' [])
   \<and> fst (Init env_obtain_fails 0 0 (init_state cfg_ok)) = Inr 7"
  by (simp add: Init_def obtainNewCert_def loadStoredCert_def Let_def CheckConfig_cfg_ok
      init_state_fields cfg_ok_fields env_obtain_fails_fields join_simple_def deref_c_def
      file_names)

subsection \<open>Init and the caller's Config\<close>

text \<open>
  C7 (amended). Once validation succeeds Init stores the caller's pointer in the package
  variable \<^verbatim>\<open>c\<close>, so the configuration is published through a shared global. Init
  writes one field of the caller's struct: in local mode, once the log file is open, it
  replaces CacheDir by filepath.Join(CacheDir, "local"). Every other field, and in ACME
  mode CacheDir too, is left as the caller passed it. The claim as stated, that no field
  changes and no global is used, fails in local mode (the counterexample below).
\<close>

theorem Init_config_frame:
  assumes "heap s cfg = Some cv"
  shows "glob_c (snd (Init E cfg cleanup s)) =
           (if fst (CheckConfig cv) = None then Some cfg else glob_c s)
     \<and> heap (snd (Init E cfg cleanup s)) =
           (if fst (CheckConfig cv) = None \<and> Local cv
               \<and> \<not> isl (os_OpenFile E (filepath_Join E (CacheDir cv) logFileName))
            then (heap s)(cfg \<mapsto> cv\<lparr>CacheDir := filepath_Join E (CacheDir cv) ''local''\<rparr>)
            else heap s)"
proof (cases "CheckConfig cv")
  case (Pair r logged)
  show ?thesis
  proof (cases r)
    case None
    with Pair assms show ?thesis
      by (simp add: Init_def Let_def loadStoredCert_frame obtainNewCert_frame Init_local_frame
          split: sum.splits)
  next
    case (Some e)
    with Pair assms show ?thesis by (simp add: Init_def)
  qed
qed

theorem Init_config_frame_witness:
  "heap (snd (Init env_acme_up 0 0 (init_state cfg_ok))) = heap (init_state cfg_ok)
   \<and> glob_c (snd (Init env_acme_up 0 0 (init_state cfg_ok))) = Some 0"
  using Init_config_frame [of "init_state cfg_ok" 0 cfg_ok env_acme_up 0] CheckConfig_cfg_ok
  by (simp add: init_state_def cfg_ok_def Default_def)

theorem Init_mutates_config_counterexample:
  "heap (init_state cfg_local) 0 = Some cfg_local
   \<and> glob_c (init_state cfg_local) = None
   \<and> CacheDir cfg_local = ''letsencrypt''
   \<and> heap (snd (Init env_acme_up 0 0 (init_state cfg_local))) 0
       = Some (cfg_local\<lparr>CacheDir := ''letsencrypt/local''\<rparr>)
   \<and> glob_c (snd (Init env_acme_up 0 0 (init_state cfg_local))) = Some 0"
  by (simp add: Init_def Init_local_def Let_def CheckConfig_cfg_local init_state_def
      env_acme_up_def env_acme_down_def join_simple_def)
    (simp add: cfg_local_def cfg_ok_def Default_def)

end
